theory Spec2Isabelle
  imports Main
begin

section \<open>Data model\<close>

text \<open>
  The coordinator \<^verbatim>\<open>Game\<close> of \<^verbatim>\<open>apps/server/src/game/logic.ts\<close> works on
  JavaScript objects that are shared by reference: a connection carries the fields
  \<^verbatim>\<open>socket.session\<close> and \<^verbatim>\<open>socket.user\<close>, the registry maps a session identifier
  to a \<^verbatim>\<open>Session\<close> object, and a session lists its \<^verbatim>\<open>User\<close> objects. The
  embedding keeps this sharing: sessions and users live in two stores indexed by
  references, and every handler takes the whole state and returns it updated, together
  with the error it raised, if any. An exception does not undo the writes made before it,
  so a handler returns the state also when it raises.
\<close>

type_synonym sref = nat \<comment> \<open>reference to a \<^verbatim>\<open>Session\<close> object\<close>
type_synonym uref = nat \<comment> \<open>reference to a \<^verbatim>\<open>User\<close> object\<close>
type_synonym sock = nat \<comment> \<open>a \<^verbatim>\<open>WebSocket\<close> connection\<close>

datatype status = Waiting | Starting | Voting | Choosing | ChoosingBest | End

text \<open>The fields of \<^verbatim>\<open>User\<close> that \<^verbatim>\<open>logic.ts\<close> reads, and the avatar it passes on.\<close>

record user =
  user_id :: string
  username :: string
  avatarId :: nat
  host :: bool
  master :: bool
  disconnected :: bool
  voted :: bool

text \<open>
  The four closures that \<^verbatim>\<open>Game.startGame\<close> registers on a session's event bus, each
  with the session it closes over.
\<close>

datatype listener = OnStarting sref | OnVoting sref | OnChoosing sref | OnChoosingBest sref

record session =
  session_id :: string
  status :: status
  users :: "uref list"
  redCard :: "string option"
  votes :: "(string \<times> string) list"
  listeners :: "(string \<times> listener) list" \<comment> \<open>\<^verbatim>\<open>session.eventBus\<close>, in registration order\<close>
  userSockets :: "uref \<Rightarrow> sock option" \<comment> \<open>the connection bound to a user\<close>
  whitecards :: "uref \<Rightarrow> string list" \<comment> \<open>the hand of a user\<close>

text \<open>A payload is the object handed to \<^verbatim>\<open>stringify\<close>: a type tag and the details, by key.\<close>

datatype jsval =
    JStr string
  | JStatus status
  | JUsers "user list"
  | JCards "string list"
  | JCard "string option"
  | JVotes "(string \<times> string) list"

datatype message = Message (mtype: string) (details: "(string \<times> jsval) list")

text \<open>The calls \<^verbatim>\<open>Game\<close> makes on its collaborators, in the order it makes them.\<close>

datatype event =
    Send sock message \<comment> \<open>\<^verbatim>\<open>socket.send(stringify(message))\<close>\<close>
  | OnClose sock \<comment> \<open>\<^verbatim>\<open>socket.on("close", ...)\<close>\<close>
  | ClearListeners sref \<comment> \<open>\<^verbatim>\<open>session.eventBus.clearListeners()\<close>\<close>
  | On sref string \<comment> \<open>\<^verbatim>\<open>session.eventBus.on(name, ...)\<close>\<close>
  | StartGame sref \<comment> \<open>\<^verbatim>\<open>session.startGame()\<close>\<close>
  | AddUser sref sock string nat bool \<comment> \<open>\<^verbatim>\<open>session.addUser(socket, username, avatarId, host)\<close>\<close>
  | ReconnectUser sref sock uref nat \<comment> \<open>\<^verbatim>\<open>session.reconnectUser(socket, user, avatarId)\<close>\<close>
  | DisconnectUser sref uref \<comment> \<open>\<^verbatim>\<open>session.disconnectUser(user, ...)\<close>\<close>
  | Vote sref uref string \<comment> \<open>\<^verbatim>\<open>session.vote(user, text)\<close>\<close>
  | Choose sref string \<comment> \<open>\<^verbatim>\<open>session.choose(userId)\<close>\<close>
  | ChooseBest sref string \<comment> \<open>\<^verbatim>\<open>session.chooseBest(userId)\<close>\<close>

text \<open>
  \<^verbatim>\<open>throw new Error(message)\<close> is \<open>Error message\<close>; calling a method on \<^verbatim>\<open>null\<close> or
  \<^verbatim>\<open>undefined\<close> is \<open>TypeError\<close>.
\<close>

datatype error = Error string | TypeError

record socket =
  session :: "sref option"
  user :: "uref option"

record game =
  sessions :: "string \<Rightarrow> sref option" \<comment> \<open>\<^verbatim>\<open>this.sessions\<close>\<close>
  sessionHeap :: "sref \<Rightarrow> session"
  userHeap :: "uref \<Rightarrow> user"
  allocated :: nat \<comment> \<open>the next unused user reference\<close>
  sockets :: "sock \<Rightarrow> socket"
  trace :: "event list"

type_synonym 'a outcome = "'a \<times> game"

definition record_event :: "event \<Rightarrow> game \<Rightarrow> game" where
  "record_event e g = g\<lparr>trace := trace g @ [e]\<rparr>"

definition update_session :: "sref \<Rightarrow> (session \<Rightarrow> session) \<Rightarrow> game \<Rightarrow> game" where
  "update_session r f g = g\<lparr>sessionHeap := (sessionHeap g)(r := f (sessionHeap g r))\<rparr>"

definition update_user :: "uref \<Rightarrow> (user \<Rightarrow> user) \<Rightarrow> game \<Rightarrow> game" where
  "update_user u f g = g\<lparr>userHeap := (userHeap g)(u := f (userHeap g u))\<rparr>"

section \<open>The accessors of Session\<close>

text \<open>
  Modelled from the spec: \<^verbatim>\<open>Session.getUserSocket\<close> is not in \<^verbatim>\<open>logic.ts\<close>. It is
  the accessor of the connection bound to a user, which is absent while the user has no
  bound connection, and it never changes the state.
\<close>

definition getUserSocket :: "session \<Rightarrow> uref \<Rightarrow> sock option" where
  "getUserSocket s u = userSockets s u"

text \<open>
  Modelled from the spec: \<^verbatim>\<open>Session.getUserWhitecards\<close> is not in \<^verbatim>\<open>logic.ts\<close>. It is
  the accessor of a user's hand, and it never changes the state.
\<close>

definition getUserWhitecards :: "session \<Rightarrow> uref \<Rightarrow> string list" where
  "getUserWhitecards s u = whitecards s u"

section \<open>Game.vote\<close>

text \<open>
  \<^verbatim>\<open>Session.vote\<close> is not in \<^verbatim>\<open>logic.ts\<close>: it is the argument \<open>session_vote\<close>, called
  with the session, the user and the card text.
\<close>

definition game_vote ::
  "(sref \<Rightarrow> uref \<Rightarrow> string \<Rightarrow> game \<Rightarrow> error option outcome) \<Rightarrow>
   sock \<Rightarrow> string \<Rightarrow> game \<Rightarrow> error option outcome" where
  "game_vote session_vote k text g =
     (case session (sockets g k) of
        None \<Rightarrow> (Some (Error ''no session''), g)
      | Some r \<Rightarrow>
          (case user (sockets g k) of
             None \<Rightarrow> (Some (Error ''no user''), g)
           | Some u \<Rightarrow>
               if master (userHeap g u) then (Some (Error ''master can't vote''), g)
               else if status (sessionHeap g r) \<noteq> Voting then
                 (Some (Error ''you can't vote now''), g)
               else if text \<notin> set (getUserWhitecards (sessionHeap g r) u) then
                 (Some (Error ''you have no such card''), g)
               else if voted (userHeap g u) then
                 (Some (Error ''you have voted already''), g)
               else session_vote r u text (record_event (Vote r u text) g)))"

section \<open>Sending and iterating\<close>

text \<open>
  \<^verbatim>\<open>session.getUserSocket(user).send(stringify(m))\<close>: the message goes to the connection the
  accessor returned; with no connection the method call raises.
\<close>

definition socket_send :: "sock option \<Rightarrow> message \<Rightarrow> game \<Rightarrow> error option outcome" where
  "socket_send c m g =
     (case c of
        None \<Rightarrow> (Some TypeError, g)
      | Some k \<Rightarrow> (None, record_event (Send k m) g))"

text \<open>
  \<^verbatim>\<open>array.forEach(f)\<close>: the elements in order; an exception raised by \<open>f\<close> ends the
  iteration and is passed on.
\<close>

fun forEach :: "'a list \<Rightarrow> ('a \<Rightarrow> game \<Rightarrow> error option outcome) \<Rightarrow> game \<Rightarrow> error option outcome" where
  "forEach [] f g = (None, g)"
| "forEach (x # xs) f g =
     (case f x g of
        (Some e, g') \<Rightarrow> (Some e, g')
      | (None, g') \<Rightarrow> forEach xs f g')"

text \<open>\<^verbatim>\<open>array.findIndex(p)\<close>: the index of the first element that satisfies \<open>p\<close>, or \<open>-1\<close>.\<close>

fun findIndex :: "('a \<Rightarrow> bool) \<Rightarrow> 'a list \<Rightarrow> int" where
  "findIndex p [] = - 1"
| "findIndex p (x # xs) =
     (if p x then 0 else (let i = findIndex p xs in if i = - 1 then - 1 else i + 1))"

text \<open>\<^verbatim>\<open>session.users\<close> as \<^verbatim>\<open>stringify\<close> writes it: the user objects at that moment.\<close>

definition users_snapshot :: "game \<Rightarrow> sref \<Rightarrow> user list" where
  "users_snapshot g r = map (userHeap g) (users (sessionHeap g r))"

section \<open>The phase broadcasts installed by Game.startGame\<close>

definition gamestart_payload :: "game \<Rightarrow> sref \<Rightarrow> message" where
  "gamestart_payload g r =
     Message ''gamestart'' [(''status'', JStatus (status (sessionHeap g r)))]"

definition votingstarted_payload :: "game \<Rightarrow> sref \<Rightarrow> uref \<Rightarrow> message" where
  "votingstarted_payload g r u =
     Message ''votingstarted''
       [(''whiteCards'', JCards (getUserWhitecards (sessionHeap g r) u)),
        (''redCard'', JCard (redCard (sessionHeap g r))),
        (''users'', JUsers (users_snapshot g r)),
        (''status'', JStatus (status (sessionHeap g r))),
        (''votes'', JVotes (votes (sessionHeap g r)))]"

definition choosingstarted_payload :: "game \<Rightarrow> sref \<Rightarrow> uref \<Rightarrow> message" where
  "choosingstarted_payload g r u =
     Message ''choosingstarted''
       [(''status'', JStatus (status (sessionHeap g r))),
        (''votes'', JVotes (votes (sessionHeap g r))),
        (''whiteCards'', JCards (getUserWhitecards (sessionHeap g r) u))]"

definition choosingbeststarted_payload :: "game \<Rightarrow> sref \<Rightarrow> message" where
  "choosingbeststarted_payload g r =
     Message ''choosingbeststarted'' [(''status'', JStatus (status (sessionHeap g r)))]"

definition starting_listener :: "sref \<Rightarrow> game \<Rightarrow> error option outcome" where
  "starting_listener r g =
     forEach (users (sessionHeap g r))
       (\<lambda>u g. if disconnected (userHeap g u) then (None, g)
               else socket_send (getUserSocket (sessionHeap g r) u) (gamestart_payload g r) g)
       g"

text \<open>\<^verbatim>\<open>!session.redCard\<close> holds of \<^verbatim>\<open>null\<close>, \<^verbatim>\<open>undefined\<close> and the empty string.\<close>

definition falsy_card :: "string option \<Rightarrow> bool" where
  "falsy_card c = (case c of None \<Rightarrow> True | Some t \<Rightarrow> t = [])"

definition voting_listener :: "sref \<Rightarrow> game \<Rightarrow> error option outcome" where
  "voting_listener r g =
     forEach (users (sessionHeap g r))
       (\<lambda>u g. if disconnected (userHeap g u) then (None, g)
               else if falsy_card (redCard (sessionHeap g r)) then
                 (Some (Error ''no red card''), g)
               else socket_send (getUserSocket (sessionHeap g r) u)
                      (votingstarted_payload g r u) g)
       g"

definition choosing_listener :: "sref \<Rightarrow> game \<Rightarrow> error option outcome" where
  "choosing_listener r g =
     forEach (users (sessionHeap g r))
       (\<lambda>u g. if disconnected (userHeap g u) then (None, g)
               else socket_send (getUserSocket (sessionHeap g r) u)
                      (choosingstarted_payload g r u) g)
       g"

definition choosingbest_listener :: "sref \<Rightarrow> game \<Rightarrow> error option outcome" where
  "choosingbest_listener r g =
     forEach (users (sessionHeap g r))
       (\<lambda>u g. if disconnected (userHeap g u) then (None, g)
               else socket_send (getUserSocket (sessionHeap g r) u)
                      (choosingbeststarted_payload g r) g)
       g"

fun run_listener :: "listener \<Rightarrow> game \<Rightarrow> error option outcome" where
  "run_listener (OnStarting r) g = starting_listener r g"
| "run_listener (OnVoting r) g = voting_listener r g"
| "run_listener (OnChoosing r) g = choosing_listener r g"
| "run_listener (OnChoosingBest r) g = choosingbest_listener r g"

section \<open>EventBus\<close>

text \<open>
  Modelled from the spec: the class \<^verbatim>\<open>EventBus\<close> is not in \<^verbatim>\<open>logic.ts\<close>.
  \<^verbatim>\<open>clearListeners()\<close> removes all registered handlers of all event names.
\<close>

definition EventBus_clearListeners :: "sref \<Rightarrow> game \<Rightarrow> game" where
  "EventBus_clearListeners r g = update_session r (\<lambda>s. s\<lparr>listeners := []\<rparr>) g"

text \<open>
  Modelled from the spec: \<^verbatim>\<open>EventBus.on(eventName, handler)\<close> registers a handler for a
  named event; several handlers per name are allowed and keep their registration order.
\<close>

definition EventBus_on :: "sref \<Rightarrow> string \<Rightarrow> listener \<Rightarrow> game \<Rightarrow> game" where
  "EventBus_on r name l g = update_session r (\<lambda>s. s\<lparr>listeners := listeners s @ [(name, l)]\<rparr>) g"

fun run_listeners :: "listener list \<Rightarrow> game \<Rightarrow> error option outcome" where
  "run_listeners [] g = (None, g)"
| "run_listeners (l # ls) g =
     (case run_listener l g of
        (Some e, g') \<Rightarrow> (Some e, g')
      | (None, g') \<Rightarrow> run_listeners ls g')"

text \<open>
  Modelled from the spec: \<^verbatim>\<open>EventBus.emit(eventName)\<close> invokes the handlers registered
  for that name at that moment, synchronously and in registration order; a handler that
  fails ends the dispatch and its failure reaches the caller.
\<close>

definition EventBus_emit :: "sref \<Rightarrow> string \<Rightarrow> game \<Rightarrow> error option outcome" where
  "EventBus_emit r name g =
     run_listeners (map snd (filter (\<lambda>nl. fst nl = name) (listeners (sessionHeap g r)))) g"

section \<open>The membership operations of Session\<close>

text \<open>
  Modelled from the spec: \<^verbatim>\<open>Session.addUser\<close> is not in \<^verbatim>\<open>logic.ts\<close>. It creates a
  user with the given name, avatar and host flag, binds the connection to it and appends
  it to the session's users; it fails if the name is already taken while the session
  accepts joins. The spec names that failure but not its text: the text is the one that
  \<^verbatim>\<open>Game.joinSession\<close> gives to the same condition. The identifier that the session
  generates for the user is the argument \<open>newId\<close>.
\<close>

definition Session_addUser ::
  "sref \<Rightarrow> sock \<Rightarrow> string \<Rightarrow> nat \<Rightarrow> bool \<Rightarrow> string \<Rightarrow> game \<Rightarrow> (error + uref) outcome" where
  "Session_addUser r k name av isHost newId g =
     (let s = sessionHeap g r in
      if (status s = Waiting \<or> status s = End) \<and>
         name \<in> set (map (\<lambda>u. username (userHeap g u)) (users s))
      then (Inl (Error ''nickname is taken''), g)
      else
        (let u = allocated g;
             g1 = g\<lparr>allocated := Suc u,
                    userHeap := (userHeap g)(u :=
                      \<lparr>user_id = newId, username = name, avatarId = av, host = isHost,
                       master = False, disconnected = False, voted = False\<rparr>)\<rparr>
         in (Inr u,
             update_session r
               (\<lambda>s. s\<lparr>users := users s @ [u], userSockets := (userSockets s)(u := Some k)\<rparr>)
               g1)))"

text \<open>
  Modelled from the spec: \<^verbatim>\<open>Session.reconnectUser\<close> is not in \<^verbatim>\<open>logic.ts\<close>. It rebinds
  the connection of an existing user, clears \<^verbatim>\<open>disconnected\<close> and updates the avatar.
\<close>

definition Session_reconnectUser :: "sref \<Rightarrow> sock \<Rightarrow> uref \<Rightarrow> nat \<Rightarrow> game \<Rightarrow> game" where
  "Session_reconnectUser r k u av g =
     update_session r (\<lambda>s. s\<lparr>userSockets := (userSockets s)(u := Some k)\<rparr>)
       (update_user u (\<lambda>x. x\<lparr>disconnected := False, avatarId := av\<rparr>) g)"

text \<open>
  Modelled from the spec: \<^verbatim>\<open>Session.disconnectUser\<close> is not in \<^verbatim>\<open>logic.ts\<close>. It marks
  the user as disconnected and drops its connection; if no connected user is left, it
  calls \<open>onEmpty\<close>.
\<close>

definition Session_disconnectUser :: "sref \<Rightarrow> uref \<Rightarrow> (game \<Rightarrow> game) \<Rightarrow> game \<Rightarrow> game" where
  "Session_disconnectUser r u onEmpty g =
     (let g1 = update_user u (\<lambda>x. x\<lparr>disconnected := True\<rparr>) g;
          g2 = update_session r (\<lambda>s. s\<lparr>userSockets := (userSockets s)(u := None)\<rparr>) g1
      in if list_all (\<lambda>v. disconnected (userHeap g2 v)) (users (sessionHeap g2 r))
         then onEmpty g2 else g2)"

section \<open>Game.disconnectUser and Game.onSessionEnd\<close>

definition onSessionEnd :: "sref \<Rightarrow> game \<Rightarrow> game" where
  "onSessionEnd r g =
     (let g1 = EventBus_clearListeners r (record_event (ClearListeners r) g)
      in g1\<lparr>sessions := (sessions g1)(session_id (sessionHeap g1 r) := None)\<rparr>)"

definition game_disconnectUser :: "sock \<Rightarrow> game \<Rightarrow> error option outcome" where
  "game_disconnectUser k g =
     (case session (sockets g k) of
        None \<Rightarrow> (None, g)
      | Some r \<Rightarrow>
          (case user (sockets g k) of
             None \<Rightarrow> (None, g)
           | Some u \<Rightarrow>
               (let g1 = Session_disconnectUser r u (onSessionEnd r)
                           (record_event (DisconnectUser r u) g);
                    g2 = g1\<lparr>sockets := (sockets g1)(k := (sockets g1 k)\<lparr>user := None\<rparr>)\<rparr>;
                    g3 = g2\<lparr>sockets := (sockets g2)(k := (sockets g2 k)\<lparr>session := None\<rparr>)\<rparr>
                in (None, g3))))"

section \<open>Game.joinSession\<close>

definition joined_payload :: "game \<Rightarrow> sref \<Rightarrow> uref \<Rightarrow> uref \<Rightarrow> message" where
  "joined_payload g r newUser u =
     Message ''joined''
       [(''id'', JStr (session_id (sessionHeap g r))),
        (''status'', JStatus (status (sessionHeap g r))),
        (''userId'', JStr (user_id (userHeap g newUser))),
        (''users'', JUsers (users_snapshot g r)),
        (''whiteCards'', JCards (getUserWhitecards (sessionHeap g r) u)),
        (''redCard'', JCard (redCard (sessionHeap g r)))]"

definition userjoined_payload :: "game \<Rightarrow> sref \<Rightarrow> message" where
  "userjoined_payload g r = Message ''userjoined'' [(''users'', JUsers (users_snapshot g r))]"

text \<open>Lines 79 to 96: the returning user is reconnected, or a new user is added.\<close>

definition join_user ::
  "sref \<Rightarrow> sock \<Rightarrow> string \<Rightarrow> nat \<Rightarrow> string \<Rightarrow> game \<Rightarrow> (error + uref) outcome" where
  "join_user r k name av newId g =
     (let s = sessionHeap g r;
          waitingState = (status s = Waiting \<or> status s = End);
          previousUser = find (\<lambda>u. username (userHeap g u) = name) (users s)
      in case (previousUser, waitingState) of
           (Some p, False) \<Rightarrow>
             (Inr p, Session_reconnectUser r k p av (record_event (ReconnectUser r k p av) g))
         | _ \<Rightarrow>
             if \<not> waitingState then (Inl (Error ''game is started already''), g)
             else if findIndex (\<lambda>u. username (userHeap g u) = name) (users s) \<noteq> - 1 then
               (Inl (Error ''nickname is taken''), g)
             else Session_addUser r k name av False newId
                    (record_event (AddUser r k name av False) g))"

text \<open>Lines 101 to 128: one message for every user of the session.\<close>

definition join_broadcast :: "sref \<Rightarrow> uref \<Rightarrow> game \<Rightarrow> error option outcome" where
  "join_broadcast r newUser g =
     forEach (users (sessionHeap g r))
       (\<lambda>u g. let userSocket = getUserSocket (sessionHeap g r) u in
               if user_id (userHeap g u) = user_id (userHeap g newUser) then
                 socket_send userSocket (joined_payload g r newUser u) g
               else socket_send userSocket (userjoined_payload g r) g)
       g"

definition game_joinSession ::
  "string \<Rightarrow> sock \<Rightarrow> string \<Rightarrow> nat \<Rightarrow> string \<Rightarrow> game \<Rightarrow> error option outcome" where
  "game_joinSession sessionId k name av newId g =
     (case sessions g sessionId of
        None \<Rightarrow> (Some (Error ''session not found''), g)
      | Some r \<Rightarrow>
          (case join_user r k name av newId g of
             (Inl e, g1) \<Rightarrow> (Some e, g1)
           | (Inr newUser, g1) \<Rightarrow>
               (let g2 = g1\<lparr>sockets := (sockets g1)(k := (sockets g1 k)\<lparr>session := Some r\<rparr>)\<rparr>;
                    g3 = g2\<lparr>sockets := (sockets g2)(k := (sockets g2 k)\<lparr>user := Some newUser\<rparr>)\<rparr>
                in case join_broadcast r newUser g3 of
                     (Some e, g4) \<Rightarrow> (Some e, g4)
                   | (None, g4) \<Rightarrow> (None, record_event (OnClose k) g4))))"

section \<open>Game.startGame\<close>

text \<open>Lines 180 to 250: the stale listeners are cleared and the four broadcasts registered.\<close>

definition install_listeners :: "sref \<Rightarrow> game \<Rightarrow> game" where
  "install_listeners r g =
     (let g0 = EventBus_clearListeners r (record_event (ClearListeners r) g);
          g1 = EventBus_on r ''starting'' (OnStarting r) (record_event (On r ''starting'') g0);
          g2 = EventBus_on r ''voting'' (OnVoting r) (record_event (On r ''voting'') g1);
          g3 = EventBus_on r ''choosing'' (OnChoosing r) (record_event (On r ''choosing'') g2)
      in EventBus_on r ''choosingbest'' (OnChoosingBest r)
           (record_event (On r ''choosingbest'') g3))"

text \<open>
  \<^verbatim>\<open>Session.startGame\<close> is not in \<^verbatim>\<open>logic.ts\<close>: it is the argument \<open>session_startGame\<close>,
  called with the session.
\<close>

definition game_startGame ::
  "(sref \<Rightarrow> game \<Rightarrow> error option outcome) \<Rightarrow> sock \<Rightarrow> game \<Rightarrow> error option outcome" where
  "game_startGame session_startGame k g =
     (case session (sockets g k) of
        None \<Rightarrow> (Some (Error ''no session''), g)
      | Some r \<Rightarrow>
          (case user (sockets g k) of
             None \<Rightarrow> (Some (Error ''no user''), g)
           | Some u \<Rightarrow>
               if \<not> host (userHeap g u) then (Some (Error ''you are not a host''), g)
               else if status (sessionHeap g r) \<noteq> Waiting \<and> status (sessionHeap g r) \<noteq> End then
                 (Some (Error ''game is started already''), g)
               else if int (length (users (sessionHeap g r))) < 0 then
                 (Some (Error ''need more players''), g)
               else session_startGame r (record_event (StartGame r) (install_listeners r g))))"

section \<open>Game.choose and Game.chooseBest\<close>

text \<open>
  \<^verbatim>\<open>Session.choose\<close> and \<^verbatim>\<open>Session.chooseBest\<close> are not in \<^verbatim>\<open>logic.ts\<close>: they are the
  arguments \<open>session_choose\<close> and \<open>session_chooseBest\<close>, called with the session and the
  user identifier of the command.
\<close>

definition game_choose ::
  "(sref \<Rightarrow> string \<Rightarrow> game \<Rightarrow> error option outcome) \<Rightarrow>
   string \<Rightarrow> sock \<Rightarrow> game \<Rightarrow> error option outcome" where
  "game_choose session_choose userId k g =
     (case session (sockets g k) of
        None \<Rightarrow> (Some (Error ''no session''), g)
      | Some r \<Rightarrow>
          if status (sessionHeap g r) \<noteq> Choosing then (Some (Error ''you can't choose''), g)
          else
            (case user (sockets g k) of
               None \<Rightarrow> (Some (Error ''no user''), g)
             | Some u \<Rightarrow>
                 if \<not> master (userHeap g u) then
                   (Some (Error ''only master can choose card to show''), g)
                 else session_choose r userId (record_event (Choose r userId) g)))"

definition game_chooseBest ::
  "(sref \<Rightarrow> string \<Rightarrow> game \<Rightarrow> error option outcome) \<Rightarrow>
   string \<Rightarrow> sock \<Rightarrow> game \<Rightarrow> error option outcome" where
  "game_chooseBest session_chooseBest userId k g =
     (case session (sockets g k) of
        None \<Rightarrow> (Some (Error ''no session''), g)
      | Some r \<Rightarrow>
          if status (sessionHeap g r) \<noteq> ChoosingBest then (Some (Error ''you can't choose''), g)
          else
            (case user (sockets g k) of
               None \<Rightarrow> (Some (Error ''no user''), g)
             | Some u \<Rightarrow>
                 if \<not> master (userHeap g u) then
                   (Some (Error ''only master can choose card to show''), g)
                 else session_chooseBest r userId (record_event (ChooseBest r userId) g)))"

section \<open>The named failures\<close>

text \<open>
  Modelled from the spec: \<^verbatim>\<open>logic.ts\<close> raises plain \<^verbatim>\<open>Error\<close> objects that carry a
  message only; the names are those of the spec's failure taxonomy, which gives for each
  name the condition it reports.
\<close>

datatype failure =
    SessionNotFound | InvalidPhase | PermissionDenied | DuplicateNickname
  | AlreadyVoted | UnknownCard | MissingContext | Unnamed

definition failure_of :: "error \<Rightarrow> failure" where
  "failure_of e =
     (if e = Error ''session not found'' then SessionNotFound
      else if e = Error ''game is started already'' then InvalidPhase
      else if e = Error ''you can't vote now'' then InvalidPhase
      else if e = Error ''you can't choose'' then InvalidPhase
      else if e = Error ''you are not a host'' then PermissionDenied
      else if e = Error ''master can't vote'' then PermissionDenied
      else if e = Error ''only master can choose card to show'' then PermissionDenied
      else if e = Error ''nickname is taken'' then DuplicateNickname
      else if e = Error ''you have voted already'' then AlreadyVoted
      else if e = Error ''you have no such card'' then UnknownCard
      else if e = Error ''no session'' then MissingContext
      else if e = Error ''no user'' then MissingContext
      else Unnamed)"

section \<open>Session.startGame and Session.vote\<close>

text \<open>
  What a round draws at random: the prompt card, the hands and the master.
\<close>

record draw =
  prompt :: "string option"
  hands :: "uref \<Rightarrow> string list"
  firstMaster :: uref

text \<open>
  Modelled from the spec: \<^verbatim>\<open>Session.startGame\<close> is not in \<^verbatim>\<open>logic.ts\<close>. It resets the
  round state, deals the hands, selects the prompt card and the master, and goes through
  \<^verbatim>\<open>starting\<close> to \<^verbatim>\<open>voting\<close>, emitting both events in sequence. The random choices are
  the argument \<open>d\<close>.
\<close>

definition Session_startGame :: "draw \<Rightarrow> sref \<Rightarrow> game \<Rightarrow> error option outcome" where
  "Session_startGame d r g =
     (let us = users (sessionHeap g r);
          g1 = g\<lparr>userHeap :=
                   (\<lambda>v. if v \<in> set us
                        then (userHeap g v)\<lparr>master := (v = firstMaster d), voted := False\<rparr>
                        else userHeap g v)\<rparr>;
          g2 = update_session r
                 (\<lambda>s. s\<lparr>status := Starting, redCard := prompt d, votes := [],
                         whitecards := hands d\<rparr>) g1
      in case EventBus_emit r ''starting'' g2 of
           (Some e, g3) \<Rightarrow> (Some e, g3)
         | (None, g3) \<Rightarrow>
             EventBus_emit r ''voting'' (update_session r (\<lambda>s. s\<lparr>status := Voting\<rparr>) g3))"

text \<open>
  Modelled from the spec: \<^verbatim>\<open>Session.vote\<close> is not in \<^verbatim>\<open>logic.ts\<close>. It fails unless
  the status is \<^verbatim>\<open>voting\<close>, the user is not the master, the card is in the user's hand
  and the user has not voted in this round; otherwise it records the vote and marks the
  user as having voted. The spec names the failures but not their texts: the texts are
  those that \<^verbatim>\<open>Game.vote\<close> gives to the same conditions. When the session leaves
  \<^verbatim>\<open>voting\<close> is not said, and is left out.
\<close>

definition Session_vote :: "sref \<Rightarrow> uref \<Rightarrow> string \<Rightarrow> game \<Rightarrow> error option outcome" where
  "Session_vote r u text g =
     (if status (sessionHeap g r) \<noteq> Voting then (Some (Error ''you can't vote now''), g)
      else if master (userHeap g u) then (Some (Error ''master can't vote''), g)
      else if text \<notin> set (whitecards (sessionHeap g r) u) then
        (Some (Error ''you have no such card''), g)
      else if voted (userHeap g u) then (Some (Error ''you have voted already''), g)
      else
        (None,
         update_user u (\<lambda>x. x\<lparr>voted := True\<rparr>)
           (update_session r
              (\<lambda>s. s\<lparr>votes := votes s @ [(user_id (userHeap g u), text)]\<rparr>) g)))"

section \<open>Reading a trace\<close>

text \<open>The messages of a trace: the connection and the type tag of each, in order.\<close>

fun sent :: "event list \<Rightarrow> (sock \<times> string) list" where
  "sent [] = []"
| "sent (Send k m # es) = (k, mtype m) # sent es"
| "sent (e # es) = sent es"

text \<open>The keys of the details of a message that was sent.\<close>

fun payload_keys :: "event \<Rightarrow> string list" where
  "payload_keys (Send k m) = map fst (details m)"
| "payload_keys e = []"

text \<open>The calls of \<^verbatim>\<open>session.addUser\<close> in a trace.\<close>

fun adds_user :: "event \<Rightarrow> bool" where
  "adds_user (AddUser r k name av h) = True"
| "adds_user e = False"

text \<open>\<open>precedes a b es\<close>: the call \<open>a\<close> is made before the first call \<open>b\<close> of \<open>es\<close>.\<close>

definition precedes :: "event \<Rightarrow> event \<Rightarrow> event list \<Rightarrow> bool" where
  "precedes a b es = (a \<in> set (takeWhile (\<lambda>e. e \<noteq> b) es))"

text \<open>
  What a loop that sends one message per user does, as a function of the list alone: the
  users for which \<open>skip\<close> holds are passed over, the others receive \<open>m u\<close> on the
  connection \<open>c u\<close>, and the loop ends at the first of them that has no connection.
\<close>

fun broadcast_events ::
  "(uref \<Rightarrow> bool) \<Rightarrow> (uref \<Rightarrow> sock option) \<Rightarrow> (uref \<Rightarrow> message) \<Rightarrow> uref list \<Rightarrow> event list" where
  "broadcast_events skip c m [] = []"
| "broadcast_events skip c m (u # us) =
     (if skip u then broadcast_events skip c m us
      else case c u of
             None \<Rightarrow> []
           | Some k \<Rightarrow> Send k (m u) # broadcast_events skip c m us)"

fun broadcast_error :: "(uref \<Rightarrow> bool) \<Rightarrow> (uref \<Rightarrow> sock option) \<Rightarrow> uref list \<Rightarrow> error option" where
  "broadcast_error skip c [] = None"
| "broadcast_error skip c (u # us) =
     (if skip u then broadcast_error skip c us
      else case c u of
             None \<Rightarrow> Some TypeError
           | Some k \<Rightarrow> broadcast_error skip c us)"

section \<open>A session of three players\<close>

definition alice :: user where
  "alice = \<lparr>user_id = ''u1'', username = ''alice'', avatarId = 1, host = True,
            master = True, disconnected = False, voted = False\<rparr>"

definition bob :: user where
  "bob = \<lparr>user_id = ''u2'', username = ''bob'', avatarId = 2, host = False,
          master = False, disconnected = False, voted = False\<rparr>"

definition carl :: user where
  "carl = \<lparr>user_id = ''u3'', username = ''carl'', avatarId = 3, host = False,
           master = False, disconnected = False, voted = False\<rparr>"

definition table_session :: "status \<Rightarrow> session" where
  "table_session st =
     \<lparr>session_id = ''s1'', status = st, users = [0, 1, 2], redCard = Some ''red'',
      votes = [], listeners = [],
      userSockets = (\<lambda>u. None)(0 := Some 10, 1 := Some 11, 2 := Some 12),
      whitecards = (\<lambda>u. [])(0 := [''a1''], 1 := [''b1'', ''b2''], 2 := [''c1''])\<rparr>"

text \<open>
  Alice, the host and master, on connection 10; Bob on 11; Carl on 12; all in the session
  \<open>''s1''\<close>, whose status is \<open>st\<close>.
\<close>

definition table :: "status \<Rightarrow> game" where
  "table st =
     \<lparr>sessions = (\<lambda>i. None)(''s1'' := Some 0),
      sessionHeap = (\<lambda>r. table_session st),
      userHeap = (\<lambda>u. alice)(1 := bob, 2 := carl),
      allocated = 3,
      sockets = (\<lambda>k. \<lparr>session = None, user = None\<rparr>)
        (10 := \<lparr>session = Some 0, user = Some 0\<rparr>,
         11 := \<lparr>session = Some 0, user = Some 1\<rparr>,
         12 := \<lparr>session = Some 0, user = Some 2\<rparr>),
      trace = []\<rparr>"

text \<open>The same table after Bob and Carl have lost their connections.\<close>

definition away :: "status \<Rightarrow> game" where
  "away st = snd (game_disconnectUser 12 (snd (game_disconnectUser 11 (table st))))"

definition first_draw :: draw where
  "first_draw =
     \<lparr>prompt = Some ''red'',
      hands = (\<lambda>u. [])(0 := [''a1''], 1 := [''b1'', ''b2''], 2 := [''c1'']),
      firstMaster = 0\<rparr>"

text \<open>Alice alone, host of a session of one, on connection 10.\<close>

definition solo :: "status \<Rightarrow> game" where
  "solo st =
     \<lparr>sessions = (\<lambda>i. None)(''s1'' := Some 0),
      sessionHeap = (\<lambda>r. (table_session st)\<lparr>users := [0]\<rparr>),
      userHeap = (\<lambda>u. alice),
      allocated = 1,
      sockets = (\<lambda>k. \<lparr>session = None, user = None\<rparr>)
        (10 := \<lparr>session = Some 0, user = Some 0\<rparr>),
      trace = []\<rparr>"

text \<open>
  The table with Bob and Carl marked as disconnected while the session still holds their
  connections.
\<close>

definition stale :: "status \<Rightarrow> game" where
  "stale st =
     update_user 1 (\<lambda>x. x\<lparr>disconnected := True\<rparr>)
       (update_user 2 (\<lambda>x. x\<lparr>disconnected := True\<rparr>) (table st))"

text \<open>
  A stand-in for \<^verbatim>\<open>Session.choose\<close> and \<^verbatim>\<open>Session.chooseBest\<close> in the examples: it
  fires the named broadcast and changes nothing else.
\<close>

definition fire :: "string \<Rightarrow> sref \<Rightarrow> string \<Rightarrow> game \<Rightarrow> error option outcome" where
  "fire name r userId g = EventBus_emit r name g"

section \<open>Basic facts\<close>

lemmas example_defs =
  table_def table_session_def alice_def bob_def carl_def solo_def first_draw_def

lemmas run_defs =
  install_listeners_def EventBus_on_def EventBus_clearListeners_def update_session_def
  update_user_def record_event_def Let_def Session_startGame_def EventBus_emit_def
  starting_listener_def voting_listener_def choosing_listener_def choosingbest_listener_def
  socket_send_def getUserSocket_def getUserWhitecards_def gamestart_payload_def
  votingstarted_payload_def choosingstarted_payload_def choosingbeststarted_payload_def
  falsy_card_def users_snapshot_def

lemmas join_defs =
  game_joinSession_def join_user_def join_broadcast_def Session_addUser_def
  Session_reconnectUser_def joined_payload_def userjoined_payload_def

lemmas away_defs =
  away_def stale_def game_disconnectUser_def Session_disconnectUser_def onSessionEnd_def

lemma record_event_simps:
  "sessions (record_event e g) = sessions g"
  "sessionHeap (record_event e g) = sessionHeap g"
  "userHeap (record_event e g) = userHeap g"
  "sockets (record_event e g) = sockets g"
  "allocated (record_event e g) = allocated g"
  "trace (record_event e g) = trace g @ [e]"
  by (simp_all add: record_event_def)

lemma socket_fields:
  "(s::socket)\<lparr>user := None, session := None\<rparr> = \<lparr>session = None, user = None\<rparr>"
  "(s::socket)\<lparr>session := a, user := b\<rparr> = \<lparr>session = a, user = b\<rparr>"
  by (cases s, simp)+

lemma getUserSocket_eq: "getUserSocket s = userSockets s"
  by (simp add: fun_eq_iff getUserSocket_def)

lemma table_bound:
  "session (sockets (table st) 10) = Some 0" "user (sockets (table st) 10) = Some 0"
  "session (sockets (table st) 11) = Some 0" "user (sockets (table st) 11) = Some 1"
  "session (sockets (table st) 12) = Some 0" "user (sockets (table st) 12) = Some 2"
  by (simp_all add: table_def)

lemma findIndex_bounds: "- 1 \<le> findIndex p xs"
  by (induction xs) (auto simp: Let_def)

lemma findIndex_none: "(findIndex p xs = - 1) = (\<forall>x \<in> set xs. \<not> p x)"
proof (induction xs)
  case Nil
  show ?case by simp
next
  case (Cons x xs)
  have "findIndex p xs + 1 \<noteq> - 1"
    using findIndex_bounds [of p xs] by arith
  with Cons show ?case by (simp add: Let_def)
qed

section \<open>What a broadcast loop sends\<close>

text \<open>
  A loop that only sends leaves everything but the trace as it was, so what it sends is
  a function of the state it starts in.
\<close>

lemma forEach_send:
  assumes skip: "\<And>g e. skip (record_event e g) = skip g"
    and c: "\<And>g e. c (record_event e g) = c g"
    and m: "\<And>g e. m (record_event e g) = m g"
  shows "forEach us (\<lambda>u g. if skip g u then (None, g) else socket_send (c g u) (m g u) g) g =
           (broadcast_error (skip g) (c g) us,
            g\<lparr>trace := trace g @ broadcast_events (skip g) (c g) (m g) us\<rparr>)"
proof (induction us arbitrary: g)
  case Nil
  show ?case by simp
next
  case (Cons u us)
  show ?case
  proof (cases "skip g u")
    case True
    then show ?thesis using Cons.IH [of g] by simp
  next
    case False
    show ?thesis
    proof (cases "c g u")
      case None
      with False show ?thesis by (simp add: socket_send_def)
    next
      case (Some k)
      let ?g' = "record_event (Send k (m g u)) g"
      have "?g'\<lparr>trace := trace ?g' @ broadcast_events (skip g) (c g) (m g) us\<rparr> =
            g\<lparr>trace := trace g @ Send k (m g u) # broadcast_events (skip g) (c g) (m g) us\<rparr>"
        by (simp add: record_event_def)
      with False Some show ?thesis
        using Cons.IH [of ?g'] by (simp add: socket_send_def skip c m)
    qed
  qed
qed

lemma broadcast_error_cases:
  "broadcast_error skip c us = None \<or> broadcast_error skip c us = Some TypeError"
  by (induction us) (auto split: option.splits)

lemma broadcast_error_bound:
  "list_all (\<lambda>u. c u \<noteq> None) us \<Longrightarrow> broadcast_error skip c us = None"
  by (induction us) (auto split: option.splits)

lemma broadcast_events_no_add: "filter adds_user (broadcast_events skip c m us) = []"
  by (induction us) (auto split: option.splits)

text \<open>The broadcasts of the phases pass over the disconnected users.\<close>

lemma starting_listener_eq:
  "starting_listener r g =
     (broadcast_error (\<lambda>u. disconnected (userHeap g u)) (getUserSocket (sessionHeap g r))
        (users (sessionHeap g r)),
      g\<lparr>trace := trace g @
           broadcast_events (\<lambda>u. disconnected (userHeap g u))
             (getUserSocket (sessionHeap g r)) (\<lambda>u. gamestart_payload g r)
             (users (sessionHeap g r))\<rparr>)"
  unfolding starting_listener_def
  by (rule forEach_send [where skip = "\<lambda>g u. disconnected (userHeap g u)"
        and c = "\<lambda>g. getUserSocket (sessionHeap g r)" and m = "\<lambda>g u. gamestart_payload g r"])
     (simp_all add: record_event_simps gamestart_payload_def fun_eq_iff)

lemma choosing_listener_eq:
  "choosing_listener r g =
     (broadcast_error (\<lambda>u. disconnected (userHeap g u)) (getUserSocket (sessionHeap g r))
        (users (sessionHeap g r)),
      g\<lparr>trace := trace g @
           broadcast_events (\<lambda>u. disconnected (userHeap g u))
             (getUserSocket (sessionHeap g r)) (choosingstarted_payload g r)
             (users (sessionHeap g r))\<rparr>)"
  unfolding choosing_listener_def
  by (rule forEach_send [where skip = "\<lambda>g u. disconnected (userHeap g u)"
        and c = "\<lambda>g. getUserSocket (sessionHeap g r)" and m = "\<lambda>g. choosingstarted_payload g r"])
     (simp_all add: record_event_simps choosingstarted_payload_def fun_eq_iff)

lemma choosingbest_listener_eq:
  "choosingbest_listener r g =
     (broadcast_error (\<lambda>u. disconnected (userHeap g u)) (getUserSocket (sessionHeap g r))
        (users (sessionHeap g r)),
      g\<lparr>trace := trace g @
           broadcast_events (\<lambda>u. disconnected (userHeap g u))
             (getUserSocket (sessionHeap g r)) (\<lambda>u. choosingbeststarted_payload g r)
             (users (sessionHeap g r))\<rparr>)"
  unfolding choosingbest_listener_def
  by (rule forEach_send [where skip = "\<lambda>g u. disconnected (userHeap g u)"
        and c = "\<lambda>g. getUserSocket (sessionHeap g r)"
        and m = "\<lambda>g u. choosingbeststarted_payload g r"])
     (simp_all add: record_event_simps choosingbeststarted_payload_def fun_eq_iff)

text \<open>The broadcast of a join passes over nobody.\<close>

lemma join_broadcast_eq:
  "join_broadcast r n g =
     (broadcast_error (\<lambda>u. False) (getUserSocket (sessionHeap g r)) (users (sessionHeap g r)),
      g\<lparr>trace := trace g @
           broadcast_events (\<lambda>u. False) (getUserSocket (sessionHeap g r))
             (\<lambda>u. if user_id (userHeap g u) = user_id (userHeap g n)
                  then joined_payload g r n u else userjoined_payload g r)
             (users (sessionHeap g r))\<rparr>)"
proof -
  have "join_broadcast r n g =
          forEach (users (sessionHeap g r))
            (\<lambda>u g. if False then (None, g)
                    else socket_send (getUserSocket (sessionHeap g r) u)
                           (if user_id (userHeap g u) = user_id (userHeap g n)
                            then joined_payload g r n u else userjoined_payload g r) g) g"
    unfolding join_broadcast_def
    by (simp add: Let_def if_distrib [of "\<lambda>m. socket_send _ m _"] cong: if_cong)
  also have "\<dots> =
     (broadcast_error (\<lambda>u. False) (getUserSocket (sessionHeap g r)) (users (sessionHeap g r)),
      g\<lparr>trace := trace g @
           broadcast_events (\<lambda>u. False) (getUserSocket (sessionHeap g r))
             (\<lambda>u. if user_id (userHeap g u) = user_id (userHeap g n)
                  then joined_payload g r n u else userjoined_payload g r)
             (users (sessionHeap g r))\<rparr>)"
    by (rule forEach_send [where skip = "\<lambda>g u. False"
          and c = "\<lambda>g. getUserSocket (sessionHeap g r)"
          and m = "\<lambda>g u. if user_id (userHeap g u) = user_id (userHeap g n)
                  then joined_payload g r n u else userjoined_payload g r"])
       (simp_all add: record_event_simps joined_payload_def userjoined_payload_def
          users_snapshot_def fun_eq_iff)
  finally show ?thesis .
qed

lemma join_broadcast_shape:
  "\<exists>t. join_broadcast r n g =
     (broadcast_error (\<lambda>u. False) (getUserSocket (sessionHeap g r)) (users (sessionHeap g r)),
      g\<lparr>trace := t\<rparr>)"
  using join_broadcast_eq [of r n g] by blast

section \<open>What Game.startGame installs\<close>

lemma install_listeners_listeners:
  "listeners (sessionHeap (install_listeners r g) r) =
     [(''starting'', OnStarting r), (''voting'', OnVoting r),
      (''choosing'', OnChoosing r), (''choosingbest'', OnChoosingBest r)]"
  by (simp add: install_listeners_def EventBus_on_def EventBus_clearListeners_def
      update_session_def record_event_def Let_def)

lemma install_listeners_trace:
  "trace (install_listeners r g) =
     trace g @ [ClearListeners r, On r ''starting'', On r ''voting'', On r ''choosing'',
                On r ''choosingbest'']"
  by (simp add: install_listeners_def EventBus_on_def EventBus_clearListeners_def
      update_session_def record_event_def Let_def)

section \<open>C1: the payloads of the choosing and choosingbest broadcasts\<close>

text \<open>
  C1, as the spec states it, fails: the \<^verbatim>\<open>choosingbeststarted\<close> payload carries the status
  and nothing else. At the table of three in status \<^verbatim>\<open>choosingbest\<close> every player
  receives a message whose only key is \<^verbatim>\<open>status\<close>, although Bob holds two cards.
\<close>

theorem choosingbest_payload_counterexample:
  "trace (snd (choosingbest_listener 0 (table ChoosingBest))) =
     [Send 10 (Message ''choosingbeststarted'' [(''status'', JStatus ChoosingBest)]),
      Send 11 (Message ''choosingbeststarted'' [(''status'', JStatus ChoosingBest)]),
      Send 12 (Message ''choosingbeststarted'' [(''status'', JStatus ChoosingBest)])]
   \<and> map payload_keys (trace (snd (choosingbest_listener 0 (table ChoosingBest)))) =
       [[''status''], [''status''], [''status'']]
   \<and> getUserWhitecards (sessionHeap (table ChoosingBest) 0) 1 = [''b1'', ''b2'']"
  by (simp add: example_defs run_defs)

text \<open>
  C1, amended. The listeners that \<^verbatim>\<open>Game.startGame\<close> registers for \<^verbatim>\<open>choosing\<close> and
  \<^verbatim>\<open>choosingbest\<close> are the two broadcasts below. Both pass over the disconnected users
  and send to the others in list order. The \<^verbatim>\<open>choosingstarted\<close> payload of a recipient
  holds the status, the votes of the round and that recipient's own hand, and no prompt
  card; the \<^verbatim>\<open>choosingbeststarted\<close> payload holds the status only: no prompt card, no
  hand and no votes.
\<close>

theorem choosing_payloads:
  "map snd (filter (\<lambda>nl. fst nl = ''choosing'')
      (listeners (sessionHeap (install_listeners r g0) r))) = [OnChoosing r]
   \<and> map snd (filter (\<lambda>nl. fst nl = ''choosingbest'')
      (listeners (sessionHeap (install_listeners r g0) r))) = [OnChoosingBest r]
   \<and> run_listener (OnChoosing r) g =
       (broadcast_error (\<lambda>u. disconnected (userHeap g u)) (getUserSocket (sessionHeap g r))
          (users (sessionHeap g r)),
        g\<lparr>trace := trace g @
             broadcast_events (\<lambda>u. disconnected (userHeap g u))
               (getUserSocket (sessionHeap g r))
               (\<lambda>u. Message ''choosingstarted''
                      [(''status'', JStatus (status (sessionHeap g r))),
                       (''votes'', JVotes (votes (sessionHeap g r))),
                       (''whiteCards'', JCards (getUserWhitecards (sessionHeap g r) u))])
               (users (sessionHeap g r))\<rparr>)
   \<and> run_listener (OnChoosingBest r) g =
       (broadcast_error (\<lambda>u. disconnected (userHeap g u)) (getUserSocket (sessionHeap g r))
          (users (sessionHeap g r)),
        g\<lparr>trace := trace g @
             broadcast_events (\<lambda>u. disconnected (userHeap g u))
               (getUserSocket (sessionHeap g r))
               (\<lambda>u. Message ''choosingbeststarted''
                      [(''status'', JStatus (status (sessionHeap g r)))])
               (users (sessionHeap g r))\<rparr>)"
proof -
  have "choosingstarted_payload g r =
          (\<lambda>u. Message ''choosingstarted''
                 [(''status'', JStatus (status (sessionHeap g r))),
                  (''votes'', JVotes (votes (sessionHeap g r))),
                  (''whiteCards'', JCards (getUserWhitecards (sessionHeap g r) u))])"
    by (simp add: choosingstarted_payload_def fun_eq_iff)
  moreover have "choosingbeststarted_payload g r =
          Message ''choosingbeststarted'' [(''status'', JStatus (status (sessionHeap g r)))]"
    by (simp add: choosingbeststarted_payload_def)
  ultimately show ?thesis
    using choosing_listener_eq [of r g] choosingbest_listener_eq [of r g]
    by (simp add: install_listeners_listeners)
qed

section \<open>C2: the order of clearing, installing and starting\<close>

text \<open>
  C2, as the spec states it, fails: the listeners are not installed after
  \<^verbatim>\<open>session.startGame()\<close>. When Alice, the host, starts the game at the waiting table, the
  first six calls are the clearing, the four registrations and then \<^verbatim>\<open>startGame\<close>; the
  call of \<^verbatim>\<open>startGame\<close> precedes no registration, and its two emissions already reach
  the listeners, which send \<^verbatim>\<open>gamestart\<close> and \<^verbatim>\<open>votingstarted\<close> to the three players.
\<close>

theorem startGame_order_counterexample:
  "take 6 (trace (snd (game_startGame (Session_startGame first_draw) 10 (table Waiting)))) =
     [ClearListeners 0, On 0 ''starting'', On 0 ''voting'', On 0 ''choosing'',
      On 0 ''choosingbest'', StartGame 0]
   \<and> \<not> precedes (StartGame 0) (On 0 ''starting'')
        (trace (snd (game_startGame (Session_startGame first_draw) 10 (table Waiting))))
   \<and> \<not> precedes (StartGame 0) (On 0 ''choosingbest'')
        (trace (snd (game_startGame (Session_startGame first_draw) 10 (table Waiting))))
   \<and> sent (trace (snd (game_startGame (Session_startGame first_draw) 10 (table Waiting)))) =
     [(10, ''gamestart''), (11, ''gamestart''), (12, ''gamestart''),
      (10, ''votingstarted''), (11, ''votingstarted''), (12, ''votingstarted'')]"
  by (simp add: game_startGame_def example_defs run_defs precedes_def)

text \<open>
  C2, amended. When \<^verbatim>\<open>Game\<close> handles a valid \<^verbatim>\<open>startgame\<close> command (session and user
  bound, the caller is the host, the status is \<^verbatim>\<open>waiting\<close> or \<^verbatim>\<open>end\<close>), it first clears
  the listeners of the session, then registers the four phase broadcasts, and only then
  calls \<^verbatim>\<open>session.startGame()\<close>: the call is made in a state whose listeners are exactly
  the four new ones, and the calls made up to it are, in this order, the clearing, the four
  registrations and the start.
\<close>

theorem startGame_order:
  assumes "session (sockets g k) = Some r" and "user (sockets g k) = Some u"
    and "host (userHeap g u)"
    and "status (sessionHeap g r) = Waiting \<or> status (sessionHeap g r) = End"
  shows "game_startGame session_startGame k g =
           session_startGame r (record_event (StartGame r) (install_listeners r g))
   \<and> trace (record_event (StartGame r) (install_listeners r g)) =
       trace g @ [ClearListeners r, On r ''starting'', On r ''voting'', On r ''choosing'',
                  On r ''choosingbest'', StartGame r]
   \<and> listeners (sessionHeap (record_event (StartGame r) (install_listeners r g)) r) =
       [(''starting'', OnStarting r), (''voting'', OnVoting r),
        (''choosing'', OnChoosing r), (''choosingbest'', OnChoosingBest r)]
   \<and> precedes (ClearListeners r) (On r ''starting'')
       (drop (length (trace g)) (trace (record_event (StartGame r) (install_listeners r g))))
   \<and> precedes (On r ''choosingbest'') (StartGame r)
       (drop (length (trace g)) (trace (record_event (StartGame r) (install_listeners r g))))"
  using assms
  by (auto simp: game_startGame_def record_event_simps install_listeners_trace
      install_listeners_listeners precedes_def)

text \<open>Witness: Alice starts the game at the waiting table.\<close>

theorem startGame_order_witness:
  "game_startGame (Session_startGame first_draw) 10 (table Waiting) =
     Session_startGame first_draw 0
       (record_event (StartGame 0) (install_listeners 0 (table Waiting)))
   \<and> trace (record_event (StartGame 0) (install_listeners 0 (table Waiting))) =
       [ClearListeners 0, On 0 ''starting'', On 0 ''voting'', On 0 ''choosing'',
        On 0 ''choosingbest'', StartGame 0]"
  using startGame_order [OF table_bound(1,2) [of Waiting],
      where session_startGame = "Session_startGame first_draw"]
  by (simp add: example_defs)

section \<open>C3: who a broadcast reaches\<close>

text \<open>
  C3 at its failing input. The session \<open>''s1''\<close> is in status \<^verbatim>\<open>voting\<close>; Bob and Carl
  have lost their connections, and Carl joins again on connection 13. The broadcast of
  the join does not pass over Bob: with Bob's connection dropped, the send to him raises
  after Alice has received \<^verbatim>\<open>userjoined\<close>, and Carl never receives \<^verbatim>\<open>joined\<close>; if the
  session still holds Bob's old connection 11, \<^verbatim>\<open>userjoined\<close> is sent on it. The
  broadcast of a phase, in the same two states, reaches Alice only.
\<close>

theorem join_broadcast_reaches_disconnected:
  "disconnected (userHeap (away Voting) 1)
   \<and> getUserSocket (sessionHeap (away Voting) 0) 1 = None
   \<and> fst (game_joinSession ''s1'' 13 ''carl'' 3 ''u4'' (away Voting)) = Some TypeError
   \<and> sent (trace (snd (game_joinSession ''s1'' 13 ''carl'' 3 ''u4'' (away Voting)))) =
       [(10, ''userjoined'')]
   \<and> fst (starting_listener 0 (away Voting)) = None
   \<and> sent (trace (snd (starting_listener 0 (away Voting)))) = [(10, ''gamestart'')]
   \<and> disconnected (userHeap (stale Voting) 1)
   \<and> getUserSocket (sessionHeap (stale Voting) 0) 1 = Some 11
   \<and> sent (trace (snd (game_joinSession ''s1'' 13 ''carl'' 3 ''u4'' (stale Voting)))) =
       [(10, ''userjoined''), (11, ''userjoined''), (13, ''joined'')]
   \<and> sent (trace (snd (starting_listener 0 (stale Voting)))) = [(10, ''gamestart'')]"
  by (simp add: away_defs example_defs run_defs join_defs)

section \<open>C4: the failures and the success of a join\<close>

lemma join_user_new:
  assumes "status (sessionHeap g r) = Waiting \<or> status (sessionHeap g r) = End"
    and "\<forall>u \<in> set (users (sessionHeap g r)). username (userHeap g u) \<noteq> name"
  shows "join_user r k name av newId g =
           Session_addUser r k name av False newId (record_event (AddUser r k name av False) g)"
proof -
  have "findIndex (\<lambda>u. username (userHeap g u) = name) (users (sessionHeap g r)) = - 1"
    using assms(2) by (simp add: findIndex_none)
  moreover have "find (\<lambda>u. username (userHeap g u) = name) (users (sessionHeap g r)) = None"
    using assms(2) by (simp add: find_None_iff)
  ultimately show ?thesis
    using assms(1) by (auto simp: join_user_def Let_def)
qed

lemma join_user_taken:
  assumes "status (sessionHeap g r) = Waiting \<or> status (sessionHeap g r) = End"
    and "\<exists>u \<in> set (users (sessionHeap g r)). username (userHeap g u) = name"
  shows "join_user r k name av newId g = (Inl (Error ''nickname is taken''), g)"
proof -
  have "findIndex (\<lambda>u. username (userHeap g u) = name) (users (sessionHeap g r)) \<noteq> - 1"
    using assms(2) by (simp add: findIndex_none)
  then show ?thesis
    using assms(1) by (auto simp: join_user_def Let_def split: option.splits bool.splits)
qed

lemma Session_addUser_new:
  assumes "\<forall>u \<in> set (users (sessionHeap g r)). username (userHeap g u) \<noteq> name"
  shows "Session_addUser r k name av isHost newId g =
     (Inr (allocated g),
      g\<lparr>allocated := Suc (allocated g),
        userHeap := (userHeap g)(allocated g :=
           \<lparr>user_id = newId, username = name, avatarId = av, host = isHost,
            master = False, disconnected = False, voted = False\<rparr>),
        sessionHeap := (sessionHeap g)(r := (sessionHeap g r)
           \<lparr>users := users (sessionHeap g r) @ [allocated g],
            userSockets := (userSockets (sessionHeap g r))(allocated g := Some k)\<rparr>)\<rparr>)"
  using assms by (auto simp: Session_addUser_def Let_def update_session_def)

text \<open>
  What a join does on every input. With an unknown session identifier it fails with
  \<^verbatim>\<open>SessionNotFound\<close> and changes nothing. In a session whose status is \<^verbatim>\<open>waiting\<close> or
  \<^verbatim>\<open>end\<close>, with a name that a user of the session already has, it fails with
  \<^verbatim>\<open>DuplicateNickname\<close> and changes nothing, whoever asks. With a new name the next call
  is \<^verbatim>\<open>session.addUser\<close> with \<^verbatim>\<open>host = false\<close>, a user with that name and
  \<^verbatim>\<open>host = false\<close> is appended to the users of the session, the connection is bound to
  the session and to that user, and no \<^verbatim>\<open>Error\<close> is raised; the handler ends without
  any failure when every user of the session has a connection for the broadcast that
  follows.
\<close>

lemma joinSession_outcomes:
  "(sessions g sessionId = None \<longrightarrow>
      game_joinSession sessionId k name av newId g = (Some (Error ''session not found''), g))
   \<and> (sessions g sessionId = Some r \<and>
        (status (sessionHeap g r) = Waiting \<or> status (sessionHeap g r) = End) \<longrightarrow>
        ((\<exists>u \<in> set (users (sessionHeap g r)). username (userHeap g u) = name) \<longrightarrow>
           game_joinSession sessionId k name av newId g = (Some (Error ''nickname is taken''), g))
        \<and> ((\<forall>u \<in> set (users (sessionHeap g r)). username (userHeap g u) \<noteq> name) \<longrightarrow>
             users (sessionHeap (snd (game_joinSession sessionId k name av newId g)) r) =
               users (sessionHeap g r) @ [allocated g]
             \<and> userHeap (snd (game_joinSession sessionId k name av newId g)) (allocated g) =
                 \<lparr>user_id = newId, username = name, avatarId = av, host = False,
                  master = False, disconnected = False, voted = False\<rparr>
             \<and> sockets (snd (game_joinSession sessionId k name av newId g)) k =
                 \<lparr>session = Some r, user = Some (allocated g)\<rparr>
             \<and> take (Suc (length (trace g)))
                   (trace (snd (game_joinSession sessionId k name av newId g))) =
                 trace g @ [AddUser r k name av False]
             \<and> (\<forall>m. fst (game_joinSession sessionId k name av newId g) \<noteq> Some (Error m))
             \<and> (list_all (\<lambda>u. getUserSocket (sessionHeap g r) u \<noteq> None)
                   (users (sessionHeap g r)) \<longrightarrow>
                  fst (game_joinSession sessionId k name av newId g) = None)))
   \<and> failure_of (Error ''session not found'') = SessionNotFound
   \<and> failure_of (Error ''nickname is taken'') = DuplicateNickname"
proof -
  have none: "game_joinSession sessionId k name av newId g =
                (Some (Error ''session not found''), g)"
    if "sessions g sessionId = None"
    using that by (simp add: game_joinSession_def)
  have taken: "game_joinSession sessionId k name av newId g =
                 (Some (Error ''nickname is taken''), g)"
    if "sessions g sessionId = Some r"
      and "status (sessionHeap g r) = Waiting \<or> status (sessionHeap g r) = End"
      and "\<exists>u \<in> set (users (sessionHeap g r)). username (userHeap g u) = name"
    using that join_user_taken [of g r name k av newId]
    by (simp add: game_joinSession_def)
  have new: "users (sessionHeap (snd (game_joinSession sessionId k name av newId g)) r) =
               users (sessionHeap g r) @ [allocated g]
             \<and> userHeap (snd (game_joinSession sessionId k name av newId g)) (allocated g) =
                 \<lparr>user_id = newId, username = name, avatarId = av, host = False,
                  master = False, disconnected = False, voted = False\<rparr>
             \<and> sockets (snd (game_joinSession sessionId k name av newId g)) k =
                 \<lparr>session = Some r, user = Some (allocated g)\<rparr>
             \<and> take (Suc (length (trace g)))
                   (trace (snd (game_joinSession sessionId k name av newId g))) =
                 trace g @ [AddUser r k name av False]
             \<and> (\<forall>m. fst (game_joinSession sessionId k name av newId g) \<noteq> Some (Error m))
             \<and> (list_all (\<lambda>u. getUserSocket (sessionHeap g r) u \<noteq> None)
                   (users (sessionHeap g r)) \<longrightarrow>
                  fst (game_joinSession sessionId k name av newId g) = None)"
    if s: "sessions g sessionId = Some r"
      and w: "status (sessionHeap g r) = Waiting \<or> status (sessionHeap g r) = End"
      and n: "\<forall>u \<in> set (users (sessionHeap g r)). username (userHeap g u) \<noteq> name"
  proof -
    let ?g0 = "record_event (AddUser r k name av False) g"
    let ?c = "(userSockets (sessionHeap g r))(allocated g := Some k)"
    let ?us = "users (sessionHeap g r) @ [allocated g]"
    have n0: "\<forall>u \<in> set (users (sessionHeap ?g0 r)). username (userHeap ?g0 u) \<noteq> name"
      using n by (simp add: record_event_simps)
    have ju: "join_user r k name av newId g = Session_addUser r k name av False newId ?g0"
      using w n by (rule join_user_new)
    have bound: "broadcast_error (\<lambda>u. False) ?c ?us = None"
      if "list_all (\<lambda>u. getUserSocket (sessionHeap g r) u \<noteq> None) (users (sessionHeap g r))"
      using that
      by (intro broadcast_error_bound) (auto simp: list_all_iff getUserSocket_def)
    define G1 where "G1 = snd (Session_addUser r k name av False newId ?g0)"
    have au: "Session_addUser r k name av False newId ?g0 = (Inr (allocated g), G1)"
      by (simp add: G1_def Session_addUser_new [OF n0] record_event_simps)
    have G1: "users (sessionHeap G1 r) = ?us" "userSockets (sessionHeap G1 r) = ?c"
      "userHeap G1 (allocated g) =
         \<lparr>user_id = newId, username = name, avatarId = av, host = False,
          master = False, disconnected = False, voted = False\<rparr>"
      "trace G1 = trace g @ [AddUser r k name av False]"
      by (simp_all add: G1_def Session_addUser_new [OF n0] record_event_simps)
    define G3 where
      "G3 = G1\<lparr>sockets := (sockets G1)(k := \<lparr>session = Some r, user = Some (allocated g)\<rparr>)\<rparr>"
    obtain e g4 where jb: "join_broadcast r (allocated g) G3 = (e, g4)"
      by (cases "join_broadcast r (allocated g) G3")
    have "\<exists>evs. g4 = G3\<lparr>trace := trace G3 @ evs\<rparr>"
      using join_broadcast_eq [of r "allocated g" G3] jb by auto
    then obtain evs where g4: "g4 = G3\<lparr>trace := trace g @ AddUser r k name av False # evs\<rparr>"
      by (auto simp: G3_def G1)
    have "e = broadcast_error (\<lambda>u. False) (getUserSocket (sessionHeap G3 r))
             (users (sessionHeap G3 r))"
      using join_broadcast_shape [of r "allocated g" G3] jb by auto
    then have e: "e = broadcast_error (\<lambda>u. False) ?c ?us"
      using G1(1,2) by (simp add: G3_def getUserSocket_eq)
    have js: "game_joinSession sessionId k name av newId g =
        (case e of Some x \<Rightarrow> (Some x, g4) | None \<Rightarrow> (None, record_event (OnClose k) g4))"
      using s jb
      by (simp add: game_joinSession_def ju au socket_fields G3_def split: option.splits)
    have "e = None \<or> e = Some TypeError"
      unfolding e by (rule broadcast_error_cases)
    then show ?thesis
    proof
      assume "e = None"
      then show ?thesis
        by (simp add: js record_event_simps g4 G1 G3_def)
    next
      assume x: "e = Some TypeError"
      have res: "game_joinSession sessionId k name av newId g = (Some TypeError, g4)"
        by (simp add: js x)
      have "\<not> list_all (\<lambda>u. getUserSocket (sessionHeap g r) u \<noteq> None)
                 (users (sessionHeap g r))"
        using bound e x by auto
      then show ?thesis
        by (simp add: res g4 G1 G3_def)
    qed
  qed
  show ?thesis
    using none taken new by (simp add: failure_of_def)
qed

text \<open>
  At the table of three: the session \<open>''s2''\<close> does not exist; Bob, from his own
  connection, asks for the name he already has, in status \<^verbatim>\<open>waiting\<close> and in status
  \<^verbatim>\<open>end\<close>; Dave joins the waiting table with a new name.
\<close>

lemma joinSession_outcomes_example:
  "game_joinSession ''s2'' 13 ''dave'' 4 ''u4'' (table Waiting) =
     (Some (Error ''session not found''), table Waiting)
   \<and> game_joinSession ''s1'' 11 ''bob'' 2 ''u4'' (table Waiting) =
     (Some (Error ''nickname is taken''), table Waiting)
   \<and> game_joinSession ''s1'' 11 ''bob'' 2 ''u4'' (table End) =
     (Some (Error ''nickname is taken''), table End)
   \<and> users (sessionHeap (snd (game_joinSession ''s1'' 13 ''dave'' 4 ''u4'' (table Waiting))) 0) =
       [0, 1, 2, 3]
   \<and> host (userHeap (snd (game_joinSession ''s1'' 13 ''dave'' 4 ''u4'' (table Waiting))) 3) = False
   \<and> fst (game_joinSession ''s1'' 13 ''dave'' 4 ''u4'' (table Waiting)) = None"
  using joinSession_outcomes [where g = "table Waiting" and sessionId = "''s2''" and k = 13
      and name = "''dave''" and av = 4 and newId = "''u4''" and r = 0]
    joinSession_outcomes [where g = "table Waiting" and sessionId = "''s1''" and k = 11
      and name = "''bob''" and av = 2 and newId = "''u4''" and r = 0]
    joinSession_outcomes [where g = "table End" and sessionId = "''s1''" and k = 11
      and name = "''bob''" and av = 2 and newId = "''u4''" and r = 0]
    joinSession_outcomes [where g = "table Waiting" and sessionId = "''s1''" and k = 13
      and name = "''dave''" and av = 4 and newId = "''u4''" and r = 0]
  by (simp add: example_defs getUserSocket_def)

text \<open>
  C4 at its failing input. The session \<open>''s1''\<close> is in status \<^verbatim>\<open>waiting\<close>; Bob and Carl
  have joined and lost their connections, and Dave joins on connection 13 with a name
  that nobody has. The claim says that this join succeeds. The user is appended with
  \<^verbatim>\<open>host = false\<close>, but the handler then raises: the broadcast of the join does not pass
  over Bob, the send to him fails after Alice has received \<^verbatim>\<open>userjoined\<close>, Dave never
  receives \<^verbatim>\<open>joined\<close>, and the close handler of his connection is not registered. This
  is the defect of C3. At the table where nobody is away the same join ends without
  failure and every player is served.
\<close>

theorem join_new_name_raises:
  "sessions (away Waiting) ''s1'' = Some 0
   \<and> status (sessionHeap (away Waiting) 0) = Waiting
   \<and> map username (users_snapshot (away Waiting) 0) = [''alice'', ''bob'', ''carl'']
   \<and> map disconnected (users_snapshot (away Waiting) 0) = [False, True, True]
   \<and> fst (game_joinSession ''s1'' 13 ''dave'' 4 ''u4'' (away Waiting)) = Some TypeError
   \<and> users (sessionHeap (snd (game_joinSession ''s1'' 13 ''dave'' 4 ''u4'' (away Waiting))) 0) =
       [0, 1, 2, 3]
   \<and> host (userHeap (snd (game_joinSession ''s1'' 13 ''dave'' 4 ''u4'' (away Waiting))) 3) = False
   \<and> sent (trace (snd (game_joinSession ''s1'' 13 ''dave'' 4 ''u4'' (away Waiting)))) =
       [(10, ''userjoined'')]
   \<and> OnClose 13 \<notin> set (trace (snd (game_joinSession ''s1'' 13 ''dave'' 4 ''u4'' (away Waiting))))
   \<and> fst (game_joinSession ''s1'' 13 ''dave'' 4 ''u4'' (table Waiting)) = None
   \<and> sent (trace (snd (game_joinSession ''s1'' 13 ''dave'' 4 ''u4'' (table Waiting)))) =
       [(10, ''userjoined''), (11, ''userjoined''), (12, ''userjoined''), (13, ''joined'')]"
  by (simp add: away_defs example_defs run_defs join_defs)

section \<open>C5: the reconnection of a returning user\<close>

text \<open>
  C5. In a session whose status is neither \<^verbatim>\<open>waiting\<close> nor \<^verbatim>\<open>end\<close>, a join whose name is
  that of a user of the session reconnects that user: \<^verbatim>\<open>session.reconnectUser\<close> is the
  next call, with that user; the connection is bound to the session and to the same user
  object, which keeps its identifier, name, roles and vote flag and changes only its
  avatar and its \<^verbatim>\<open>disconnected\<close> flag; the hands are as they were; the users of the
  session are the same list, no user object is created and \<^verbatim>\<open>session.addUser\<close> is not
  called.
\<close>

theorem joinSession_reconnect:
  assumes s: "sessions g sessionId = Some r"
    and w: "status (sessionHeap g r) \<noteq> Waiting" "status (sessionHeap g r) \<noteq> End"
    and f: "find (\<lambda>u. username (userHeap g u) = name) (users (sessionHeap g r)) = Some p"
  shows "users (sessionHeap (snd (game_joinSession sessionId k name av newId g)) r) =
           users (sessionHeap g r)
   \<and> allocated (snd (game_joinSession sessionId k name av newId g)) = allocated g
   \<and> sockets (snd (game_joinSession sessionId k name av newId g)) k =
       \<lparr>session = Some r, user = Some p\<rparr>
   \<and> getUserSocket (sessionHeap (snd (game_joinSession sessionId k name av newId g)) r) p =
       Some k
   \<and> userHeap (snd (game_joinSession sessionId k name av newId g)) p =
       (userHeap g p)\<lparr>disconnected := False, avatarId := av\<rparr>
   \<and> username (userHeap g p) = name
   \<and> (\<forall>v. v \<noteq> p \<longrightarrow>
         userHeap (snd (game_joinSession sessionId k name av newId g)) v = userHeap g v)
   \<and> getUserWhitecards (sessionHeap (snd (game_joinSession sessionId k name av newId g)) r) =
       getUserWhitecards (sessionHeap g r)
   \<and> take (Suc (length (trace g))) (trace (snd (game_joinSession sessionId k name av newId g))) =
       trace g @ [ReconnectUser r k p av]
   \<and> filter adds_user (trace (snd (game_joinSession sessionId k name av newId g))) =
       filter adds_user (trace g)"
proof -
  define G1 where
    "G1 = Session_reconnectUser r k p av (record_event (ReconnectUser r k p av) g)"
  have ju: "join_user r k name av newId g = (Inr p, G1)"
    using w f by (simp add: join_user_def G1_def)
  have G1: "users (sessionHeap G1 r) = users (sessionHeap g r)"
    "allocated G1 = allocated g"
    "userSockets (sessionHeap G1 r) p = Some k"
    "userHeap G1 = (userHeap g)(p := (userHeap g p)\<lparr>disconnected := False, avatarId := av\<rparr>)"
    "whitecards (sessionHeap G1 r) = whitecards (sessionHeap g r)"
    "trace G1 = trace g @ [ReconnectUser r k p av]"
    by (simp_all add: G1_def Session_reconnectUser_def update_session_def update_user_def
        record_event_def)
  define G3 where "G3 = G1\<lparr>sockets := (sockets G1)(k := \<lparr>session = Some r, user = Some p\<rparr>)\<rparr>"
  obtain e g4 where jb: "join_broadcast r p G3 = (e, g4)"
    by (cases "join_broadcast r p G3")
  have "\<exists>evs. g4 = G3\<lparr>trace := trace G3 @ evs\<rparr> \<and> filter adds_user evs = []"
    using join_broadcast_eq [of r p G3] jb broadcast_events_no_add by auto
  then obtain evs where g4: "g4 = G3\<lparr>trace := trace g @ ReconnectUser r k p av # evs\<rparr>"
    and evs: "filter adds_user evs = []"
    by (auto simp: G3_def G1)
  have js: "game_joinSession sessionId k name av newId g =
      (case e of Some x \<Rightarrow> (Some x, g4) | None \<Rightarrow> (None, record_event (OnClose k) g4))"
    using s jb
    by (simp add: game_joinSession_def ju socket_fields G3_def split: option.splits)
  have n: "username (userHeap g p) = name"
    using f by (auto simp: find_Some_iff)
  show ?thesis
    by (cases e)
       (simp_all add: js g4 G3_def G1 evs n record_event_simps getUserSocket_def
          getUserWhitecards_def fun_eq_iff)
qed

text \<open>
  Witness: the session is in status \<^verbatim>\<open>voting\<close>, Bob and Carl have lost their
  connections, and Carl joins again on connection 13 with another avatar.
\<close>

theorem joinSession_reconnect_witness:
  "status (sessionHeap (away Voting) 0) = Voting
   \<and> find (\<lambda>u. username (userHeap (away Voting) u) = ''carl'')
        (users (sessionHeap (away Voting) 0)) = Some 2
   \<and> users (sessionHeap (snd (game_joinSession ''s1'' 13 ''carl'' 7 ''u4'' (away Voting))) 0) =
       [0, 1, 2]
   \<and> sockets (snd (game_joinSession ''s1'' 13 ''carl'' 7 ''u4'' (away Voting))) 13 =
       \<lparr>session = Some 0, user = Some 2\<rparr>
   \<and> userHeap (snd (game_joinSession ''s1'' 13 ''carl'' 7 ''u4'' (away Voting))) 2 =
       carl\<lparr>avatarId := 7\<rparr>"
proof -
  have a: "sessions (away Voting) ''s1'' = Some 0"
    "status (sessionHeap (away Voting) 0) \<noteq> Waiting"
    "status (sessionHeap (away Voting) 0) \<noteq> End"
    "find (\<lambda>u. username (userHeap (away Voting) u) = ''carl'')
        (users (sessionHeap (away Voting) 0)) = Some 2"
    "users (sessionHeap (away Voting) 0) = [0, 1, 2]"
    "userHeap (away Voting) 2 = carl\<lparr>disconnected := True\<rparr>"
    "status (sessionHeap (away Voting) 0) = Voting"
    by (simp_all add: away_defs example_defs run_defs)
  from joinSession_reconnect [OF a(1-4), where k = 13 and av = 7 and newId = "''u4''"]
  have "users (sessionHeap (snd (game_joinSession ''s1'' 13 ''carl'' 7 ''u4'' (away Voting))) 0) =
       [0, 1, 2]
   \<and> sockets (snd (game_joinSession ''s1'' 13 ''carl'' 7 ''u4'' (away Voting))) 13 =
       \<lparr>session = Some 0, user = Some 2\<rparr>
   \<and> userHeap (snd (game_joinSession ''s1'' 13 ''carl'' 7 ''u4'' (away Voting))) 2 =
       carl\<lparr>avatarId := 7\<rparr>"
    by (simp add: a(5,6) carl_def)
  then show ?thesis
    using a(4,7) by simp
qed

section \<open>C6: the checks of a vote\<close>

text \<open>
  C6. For a \<^verbatim>\<open>vote\<close> command on a connection with a bound session and user, the handler
  makes four checks in this order, and the first that applies decides the failure:
  \<^verbatim>\<open>PermissionDenied\<close> when the caller is the master, \<^verbatim>\<open>InvalidPhase\<close> when the status
  is not \<^verbatim>\<open>voting\<close>, \<^verbatim>\<open>UnknownCard\<close> when the text is not in the caller's hand,
  \<^verbatim>\<open>AlreadyVoted\<close> when the caller has voted. A failure leaves the state as it was. Only
  when none applies is \<^verbatim>\<open>session.vote\<close> called, with the caller and the text, and its
  outcome is the outcome of the handler.
\<close>

theorem game_vote_guards:
  assumes "session (sockets g k) = Some r" and "user (sockets g k) = Some u"
  shows "game_vote session_vote k text g =
     (if master (userHeap g u) then (Some (Error ''master can't vote''), g)
      else if status (sessionHeap g r) \<noteq> Voting then (Some (Error ''you can't vote now''), g)
      else if text \<notin> set (getUserWhitecards (sessionHeap g r) u) then
        (Some (Error ''you have no such card''), g)
      else if voted (userHeap g u) then (Some (Error ''you have voted already''), g)
      else session_vote r u text (record_event (Vote r u text) g))
   \<and> failure_of (Error ''master can't vote'') = PermissionDenied
   \<and> failure_of (Error ''you can't vote now'') = InvalidPhase
   \<and> failure_of (Error ''you have no such card'') = UnknownCard
   \<and> failure_of (Error ''you have voted already'') = AlreadyVoted"
  using assms by (simp add: game_vote_def failure_of_def)

text \<open>
  Witness, at the table in status \<^verbatim>\<open>voting\<close>: Bob votes a card of his hand and the vote
  is recorded; Bob votes a card he does not hold; Alice, the master, votes.
\<close>

theorem game_vote_guards_witness:
  "session (sockets (table Voting) 11) = Some 0 \<and> user (sockets (table Voting) 11) = Some 1
   \<and> game_vote Session_vote 11 ''b2'' (table Voting) =
       Session_vote 0 1 ''b2'' (record_event (Vote 0 1 ''b2'') (table Voting))
   \<and> fst (game_vote Session_vote 11 ''b2'' (table Voting)) = None
   \<and> votes (sessionHeap (snd (game_vote Session_vote 11 ''b2'' (table Voting))) 0) =
       [(''u2'', ''b2'')]
   \<and> game_vote Session_vote 11 ''zz'' (table Voting) =
       (Some (Error ''you have no such card''), table Voting)
   \<and> game_vote Session_vote 10 ''a1'' (table Voting) =
       (Some (Error ''master can't vote''), table Voting)"
  using game_vote_guards [OF table_bound(3,4) [of Voting], of Session_vote "''b2''"]
    game_vote_guards [OF table_bound(3,4) [of Voting], of Session_vote "''zz''"]
    game_vote_guards [OF table_bound(1,2) [of Voting], of Session_vote "''a1''"]
  by (simp add: example_defs getUserWhitecards_def Session_vote_def update_user_def
      update_session_def record_event_def)

section \<open>C7: the checks of a start\<close>

text \<open>
  C7. For a \<^verbatim>\<open>startgame\<close> command on a connection with a bound session and user, the
  handler fails with \<^verbatim>\<open>PermissionDenied\<close> when the caller is not the host, and otherwise
  with \<^verbatim>\<open>InvalidPhase\<close> when the status is neither \<^verbatim>\<open>waiting\<close> nor \<^verbatim>\<open>end\<close>; a failure
  leaves the state as it was. Otherwise it goes on to call \<^verbatim>\<open>session.startGame()\<close>,
  whose outcome is the outcome of the handler.
\<close>

theorem game_startGame_guards:
  assumes "session (sockets g k) = Some r" and "user (sockets g k) = Some u"
  shows "game_startGame session_startGame k g =
     (if \<not> host (userHeap g u) then (Some (Error ''you are not a host''), g)
      else if status (sessionHeap g r) \<noteq> Waiting \<and> status (sessionHeap g r) \<noteq> End then
        (Some (Error ''game is started already''), g)
      else session_startGame r (record_event (StartGame r) (install_listeners r g)))
   \<and> failure_of (Error ''you are not a host'') = PermissionDenied
   \<and> failure_of (Error ''game is started already'') = InvalidPhase"
  using assms by (simp add: game_startGame_def failure_of_def)

text \<open>
  Witness: Bob, who is not the host, starts the waiting table; Alice starts the table
  during \<^verbatim>\<open>voting\<close>; Alice starts the table in status \<^verbatim>\<open>end\<close>, which then reaches
  \<^verbatim>\<open>voting\<close>.
\<close>

theorem game_startGame_guards_witness:
  "game_startGame (Session_startGame first_draw) 11 (table Waiting) =
     (Some (Error ''you are not a host''), table Waiting)
   \<and> game_startGame (Session_startGame first_draw) 10 (table Voting) =
     (Some (Error ''game is started already''), table Voting)
   \<and> game_startGame (Session_startGame first_draw) 10 (table End) =
     Session_startGame first_draw 0 (record_event (StartGame 0) (install_listeners 0 (table End)))
   \<and> status (sessionHeap (snd (game_startGame (Session_startGame first_draw) 10 (table End))) 0)
       = Voting"
proof -
  have "status (sessionHeap (snd (Session_startGame first_draw 0
          (record_event (StartGame 0) (install_listeners 0 (table End))))) 0) = Voting"
    by (simp add: example_defs run_defs)
  then show ?thesis
    using game_startGame_guards [OF table_bound(3,4) [of Waiting],
        where session_startGame = "Session_startGame first_draw"]
      game_startGame_guards [OF table_bound(1,2) [of Voting],
        where session_startGame = "Session_startGame first_draw"]
      game_startGame_guards [OF table_bound(1,2) [of End],
        where session_startGame = "Session_startGame first_draw"]
    by (simp add: example_defs)
qed

section \<open>C8: the checks of choose and choosebest\<close>

text \<open>
  C8. For a \<^verbatim>\<open>choose\<close> command on a connection with a bound session, the handler fails
  with \<^verbatim>\<open>InvalidPhase\<close> unless the status is \<^verbatim>\<open>choosing\<close>; in that status it fails with
  \<^verbatim>\<open>MissingContext\<close> when no user is bound and with \<^verbatim>\<open>PermissionDenied\<close> when the caller
  is not the master; a failure leaves the state as it was. Only a master in status
  \<^verbatim>\<open>choosing\<close> reaches \<^verbatim>\<open>session.choose\<close>. The same holds of \<^verbatim>\<open>choosebest\<close>, the status
  \<^verbatim>\<open>choosingbest\<close> and \<^verbatim>\<open>session.chooseBest\<close>.
\<close>

theorem choose_guards:
  assumes "session (sockets g k) = Some r"
  shows "game_choose session_choose userId k g =
     (if status (sessionHeap g r) \<noteq> Choosing then (Some (Error ''you can't choose''), g)
      else case user (sockets g k) of
             None \<Rightarrow> (Some (Error ''no user''), g)
           | Some u \<Rightarrow>
               if \<not> master (userHeap g u) then
                 (Some (Error ''only master can choose card to show''), g)
               else session_choose r userId (record_event (Choose r userId) g))
   \<and> game_chooseBest session_chooseBest userId k g =
     (if status (sessionHeap g r) \<noteq> ChoosingBest then (Some (Error ''you can't choose''), g)
      else case user (sockets g k) of
             None \<Rightarrow> (Some (Error ''no user''), g)
           | Some u \<Rightarrow>
               if \<not> master (userHeap g u) then
                 (Some (Error ''only master can choose card to show''), g)
               else session_chooseBest r userId (record_event (ChooseBest r userId) g))
   \<and> failure_of (Error ''you can't choose'') = InvalidPhase
   \<and> failure_of (Error ''only master can choose card to show'') = PermissionDenied
   \<and> failure_of (Error ''no user'') = MissingContext"
  using assms by (simp add: game_choose_def game_chooseBest_def failure_of_def)

text \<open>
  Witness: Alice, the master, and Bob send \<^verbatim>\<open>choose\<close> and \<^verbatim>\<open>choosebest\<close> in the status
  of the command, and Alice sends each in the status of the other.
\<close>

theorem choose_guards_witness:
  "game_choose (fire ''choosing'') ''u2'' 10 (table Choosing) =
     fire ''choosing'' 0 ''u2'' (record_event (Choose 0 ''u2'') (table Choosing))
   \<and> game_choose (fire ''choosing'') ''u2'' 11 (table Choosing) =
     (Some (Error ''only master can choose card to show''), table Choosing)
   \<and> game_choose (fire ''choosing'') ''u2'' 10 (table ChoosingBest) =
     (Some (Error ''you can't choose''), table ChoosingBest)
   \<and> game_chooseBest (fire ''choosingbest'') ''u2'' 10 (table ChoosingBest) =
     fire ''choosingbest'' 0 ''u2'' (record_event (ChooseBest 0 ''u2'') (table ChoosingBest))
   \<and> game_chooseBest (fire ''choosingbest'') ''u2'' 11 (table ChoosingBest) =
     (Some (Error ''only master can choose card to show''), table ChoosingBest)
   \<and> game_chooseBest (fire ''choosingbest'') ''u2'' 10 (table Choosing) =
     (Some (Error ''you can't choose''), table Choosing)"
  using choose_guards [OF table_bound(1) [of Choosing], where session_choose = "fire ''choosing''"
      and userId = "''u2''" and session_chooseBest = "fire ''choosingbest''"]
    choose_guards [OF table_bound(3) [of Choosing], where session_choose = "fire ''choosing''"
      and userId = "''u2''" and session_chooseBest = "fire ''choosingbest''"]
    choose_guards [OF table_bound(1) [of ChoosingBest], where session_choose = "fire ''choosing''"
      and userId = "''u2''" and session_chooseBest = "fire ''choosingbest''"]
    choose_guards [OF table_bound(3) [of ChoosingBest], where session_choose = "fire ''choosing''"
      and userId = "''u2''" and session_chooseBest = "fire ''choosingbest''"]
  by (simp add: example_defs)

section \<open>C9: the check of the number of players\<close>

text \<open>
  C9. The check \<^verbatim>\<open>session.users.length < 0\<close> of \<^verbatim>\<open>Game.startGame\<close> never holds. So
  the handler itself never raises \<^verbatim>\<open>need more players\<close> (with a \<^verbatim>\<open>session.startGame\<close> that
  does not fail, no command has that failure), and for a bound host in status \<^verbatim>\<open>waiting\<close>
  or \<^verbatim>\<open>end\<close> it always goes on to \<^verbatim>\<open>session.startGame()\<close>, whatever the number of
  users.
\<close>

theorem need_more_players_unreachable:
  "fst (game_startGame (\<lambda>r g. (None, g)) k g) \<noteq> Some (Error ''need more players'')
   \<and> \<not> int (length (users (sessionHeap g r))) < 0
   \<and> (session (sockets g k) = Some r \<and> user (sockets g k) = Some u \<and> host (userHeap g u) \<and>
        (status (sessionHeap g r) = Waiting \<or> status (sessionHeap g r) = End) \<longrightarrow>
        game_startGame session_startGame k g =
          session_startGame r (record_event (StartGame r) (install_listeners r g)))"
  by (auto simp: game_startGame_def split: option.splits)

text \<open>Witness: Alice, alone in her session, starts the game and receives both broadcasts.\<close>

theorem need_more_players_unreachable_witness:
  "length (users (sessionHeap (solo Waiting) 0)) = 1
   \<and> game_startGame (Session_startGame first_draw) 10 (solo Waiting) =
       Session_startGame first_draw 0
         (record_event (StartGame 0) (install_listeners 0 (solo Waiting)))
   \<and> fst (game_startGame (Session_startGame first_draw) 10 (solo Waiting)) = None
   \<and> sent (trace (snd (game_startGame (Session_startGame first_draw) 10 (solo Waiting)))) =
       [(10, ''gamestart''), (10, ''votingstarted'')]"
proof -
  have "fst (Session_startGame first_draw 0
          (record_event (StartGame 0) (install_listeners 0 (solo Waiting)))) = None"
    "sent (trace (snd (Session_startGame first_draw 0
          (record_event (StartGame 0) (install_listeners 0 (solo Waiting)))))) =
       [(10, ''gamestart''), (10, ''votingstarted'')]"
    by (simp_all add: example_defs run_defs)
  then show ?thesis
    using need_more_players_unreachable
      [of 10 "solo Waiting" 0 0 "Session_startGame first_draw"]
    by (simp add: example_defs)
qed

section \<open>C10: a lost connection\<close>

text \<open>
  C10. For a \<^verbatim>\<open>lostconnection\<close> event on a connection with no bound session or no bound
  user, the handler raises nothing and returns the whole state as it was: the registry,
  every session and every user. When both are bound, it raises nothing, calls
  \<^verbatim>\<open>session.disconnectUser\<close> with the bound user and the teardown callback, and then
  clears both associations of the connection.
\<close>

theorem lostconnection_cases:
  "(session (sockets g k) = None \<or> user (sockets g k) = None \<longrightarrow>
      game_disconnectUser k g = (None, g))
   \<and> (session (sockets g k) = Some r \<and> user (sockets g k) = Some u \<longrightarrow>
        (let g1 = Session_disconnectUser r u (onSessionEnd r)
                    (record_event (DisconnectUser r u) g)
         in game_disconnectUser k g =
              (None, g1\<lparr>sockets := (sockets g1)(k := \<lparr>session = None, user = None\<rparr>)\<rparr>))
        \<and> session (sockets (snd (game_disconnectUser k g)) k) = None
        \<and> user (sockets (snd (game_disconnectUser k g)) k) = None)"
  by (auto simp: game_disconnectUser_def Let_def socket_fields split: option.splits)

text \<open>
  Witness, at the table in status \<^verbatim>\<open>voting\<close>: the connection 13 is bound to nothing;
  the connection 11 is Bob's.
\<close>

theorem lostconnection_cases_witness:
  "game_disconnectUser 13 (table Voting) = (None, table Voting)
   \<and> fst (game_disconnectUser 11 (table Voting)) = None
   \<and> sockets (snd (game_disconnectUser 11 (table Voting))) 11 = \<lparr>session = None, user = None\<rparr>
   \<and> disconnected (userHeap (snd (game_disconnectUser 11 (table Voting))) 1)
   \<and> trace (snd (game_disconnectUser 11 (table Voting))) = [DisconnectUser 0 1]
   \<and> sessions (snd (game_disconnectUser 11 (table Voting))) ''s1'' = Some 0"
proof -
  have u: "session (sockets (table Voting) 13) = None"
    by (simp add: example_defs)
  let ?g1 = "Session_disconnectUser 0 1 (onSessionEnd 0)
               (record_event (DisconnectUser 0 1) (table Voting))"
  have g1: "disconnected (userHeap ?g1 1)" "trace ?g1 = [DisconnectUser 0 1]"
    "sessions ?g1 ''s1'' = Some 0"
    by (simp_all add: Session_disconnectUser_def onSessionEnd_def example_defs run_defs)
  show ?thesis
    using lostconnection_cases [of "table Voting" 13 0 0]
      lostconnection_cases [of "table Voting" 11 0 1] u g1
    by (simp add: table_bound Let_def)
qed

end
